theory Spec2Isabelle
  imports Complex_Main
begin

section \<open>Likelihood-ratio transforms of \<open>ModelLoader\<close>\<close>

text \<open>
  The four static layer functions of \<open>paws/components/model_loader.py\<close> are written
  with the arithmetic operators of whatever they are applied to: symbolic tensors while
  a model graph is built, numbers when one event is evaluated.  They are therefore
  defined once, over any type with \<open>1\<close>, \<open>+\<close>, \<open>-\<close>, \<open>*\<close> and \<open>/\<close>, and read line by
  line like the source.  A name of the source that starts with an underscore has the
  prefix \<open>u_\<close> here.
\<close>

definition u_get_one_signal_semi_weakly_layer ::
  "'a::{one,plus,minus,times,inverse} \<Rightarrow> 'a \<Rightarrow> 'a \<Rightarrow> 'a \<Rightarrow> bool \<Rightarrow> 'a" where
  "u_get_one_signal_semi_weakly_layer fs_out mu kappa epsilon bug_fix =
     (let LLR = kappa * fs_out / (1 - fs_out + epsilon);
          LLR_xs = 1 + mu * (LLR - 1)
      in if bug_fix then LLR_xs / (LLR_xs + 1 - mu)
         else LLR_xs / (LLR_xs + 1))"

definition u_get_two_signal_semi_weakly_layer ::
  "'a::{one,plus,minus,times,inverse} \<Rightarrow> 'a \<Rightarrow> 'a \<Rightarrow> 'a \<Rightarrow> 'a \<Rightarrow> 'a \<Rightarrow> 'a \<Rightarrow> bool \<Rightarrow> 'a" where
  "u_get_two_signal_semi_weakly_layer fs_2_out fs_3_out mu alpha kappa_2 kappa_3 epsilon bug_fix =
     (let LLR_2 = kappa_2 * fs_2_out / (1 - fs_2_out + epsilon);
          LLR_3 = kappa_3 * fs_3_out / (1 - fs_3_out + epsilon);
          LLR_xs = 1 + mu * (alpha * LLR_3 + (1 - alpha) * LLR_2 - 1)
      in if bug_fix then LLR_xs / (LLR_xs + 1 - mu)
         else LLR_xs / (LLR_xs + 1))"

definition u_get_one_signal_likelihood_layer ::
  "'a::{one,plus,minus,times,inverse} \<Rightarrow> 'a \<Rightarrow> 'a \<Rightarrow> 'a \<Rightarrow> 'a" where
  "u_get_one_signal_likelihood_layer fs_out mu kappa epsilon =
     (let LLR = kappa * fs_out / (1 - fs_out + epsilon);
          LLR_xs = 1 + mu * (LLR - 1)
      in LLR_xs)"

definition u_get_two_signal_likelihood_layer ::
  "'a::{one,plus,minus,times,inverse} \<Rightarrow> 'a \<Rightarrow> 'a \<Rightarrow> 'a \<Rightarrow> 'a \<Rightarrow> 'a \<Rightarrow> 'a \<Rightarrow> 'a" where
  "u_get_two_signal_likelihood_layer fs_2_out fs_3_out mu alpha kappa_2 kappa_3 epsilon =
     (let LLR_2 = kappa_2 * fs_2_out / (1 - fs_2_out + epsilon);
          LLR_3 = kappa_3 * fs_3_out / (1 - fs_3_out + epsilon);
          LLR_xs = 1 + mu * (alpha * LLR_3 + (1 - alpha) * LLR_2 - 1)
      in LLR_xs)"

subsection \<open>The value of one event\<close>

text \<open>
  One event's value is a real number (the rounding of the floating-point format is not
  modelled), or \<open>NonFinite\<close> once a division has met a zero divisor: element-wise tensor
  division then gives inf or nan, and division of plain Python floats raises
  ZeroDivisionError.  \<open>NonFinite\<close> is kept by every later operation.
\<close>

datatype fval = Finite real | NonFinite

instantiation fval :: "{one,plus,minus,times,inverse}"
begin

definition one_fval :: fval where
  "one_fval = Finite 1"

fun plus_fval :: "fval \<Rightarrow> fval \<Rightarrow> fval" where
  "plus_fval (Finite a) (Finite b) = Finite (a + b)"
| "plus_fval _ _ = NonFinite"

fun minus_fval :: "fval \<Rightarrow> fval \<Rightarrow> fval" where
  "minus_fval (Finite a) (Finite b) = Finite (a - b)"
| "minus_fval _ _ = NonFinite"

fun times_fval :: "fval \<Rightarrow> fval \<Rightarrow> fval" where
  "times_fval (Finite a) (Finite b) = Finite (a * b)"
| "times_fval _ _ = NonFinite"

fun divide_fval :: "fval \<Rightarrow> fval \<Rightarrow> fval" where
  "divide_fval (Finite a) (Finite b) = (if b = 0 then NonFinite else Finite (a / b))"
| "divide_fval _ _ = NonFinite"

definition inverse_fval :: "fval \<Rightarrow> fval" where
  "inverse_fval x = divide (Finite 1) x"

instance ..

end



section \<open>Exceptions, enumerations and external collaborators\<close>

text \<open>
  Every exception the source can raise is a value.  The texts are the fixed part of the
  source's messages.
\<close>

datatype error =
    ValueError string
  | RuntimeError string
  | FileNotFoundError string
  | UnboundLocalError string
  | KeyError string
  | IndexError string
  | TypeError string

text \<open>
  The enumerations of \<open>paws.settings\<close> and \<open>aliad\<close> are not part of this file; only
  the members it names are known.  Any other member is \<open>OTHER_...\<close> with its name.
\<close>

datatype FeatureLevel = HIGH_LEVEL | LOW_LEVEL | OTHER_FEATURE_LEVEL string

datatype ModelType = SEMI_WEAKLY | IDEAL_WEAKLY | PRIOR_RATIO | OTHER_MODEL_TYPE string

datatype LoggerSaveMode = TRAIN | OTHER_SAVE_MODE string

datatype DecayMode = QQ | QQQ

text \<open>
  A \<open>model_type\<close> argument is \<open>Optional[Union[str, ModelType]]\<close>.  Its truth value is
  Python's: \<open>None\<close> and the empty string are false, an enumeration member is true.
\<close>

datatype model_type_arg = NoModelType | ModelTypeName string | ModelTypeMember ModelType

fun truthy :: "model_type_arg \<Rightarrow> bool" where
  "truthy NoModelType = False"
| "truthy (ModelTypeName s) = (s \<noteq> [])"
| "truthy (ModelTypeMember m) = True"

text \<open>A \<open>kappa\<close> argument is \<open>str | float\<close>; a model path argument is \<open>str | List[str]\<close>.\<close>

datatype kappa_spec = KappaNumber real | KappaString string

datatype model_paths = Path string | Paths "string list"

section \<open>Strings and paths of the Python library\<close>

definition lower_char :: "char \<Rightarrow> char" where
  "lower_char c =
     (case map_of (zip ''ABCDEFGHIJKLMNOPQRSTUVWXYZ'' ''abcdefghijklmnopqrstuvwxyz'') c of
        None \<Rightarrow> c
      | Some l \<Rightarrow> l)"

text \<open>\<open>str.lower()\<close>, on ASCII letters.\<close>

definition lower :: "string \<Rightarrow> string" where
  "lower s = map lower_char s"

definition rstrip_slash :: "string \<Rightarrow> string" where
  "rstrip_slash s = rev (dropWhile (\<lambda>c. c = CHR ''/'') (rev s))"

text \<open>
  \<open>os.path.dirname\<close> (posixpath): the part up to and including the last slash, with
  trailing slashes removed unless it consists of slashes only.
\<close>

definition os_path_dirname :: "string \<Rightarrow> string" where
  "os_path_dirname p =
     (let head = rev (dropWhile (\<lambda>c. c \<noteq> CHR ''/'') (rev p))
      in if head \<noteq> [] \<and> \<not> list_all (\<lambda>c. c = CHR ''/'') head then rstrip_slash head
         else head)"

text \<open>\<open>os.path.join\<close> (posixpath) of two components.\<close>

definition os_path_join :: "string \<Rightarrow> string \<Rightarrow> string" where
  "os_path_join a b =
     (if b \<noteq> [] \<and> hd b = CHR ''/'' then b
      else if a = [] \<or> last a = CHR ''/'' then a @ b
      else a @ ''/'' @ b)"

text \<open>Decimal digits of a natural number, for \<open>f"{name}_{i + 1}"\<close>.\<close>

function string_of_nat :: "nat \<Rightarrow> string" where
  "string_of_nat n =
     (if n < 10 then [''0123456789'' ! n]
      else string_of_nat (n div 10) @ [''0123456789'' ! (n mod 10)])"
  by pat_completeness auto
termination
  by (relation "measure id") auto

declare string_of_nat.simps [simp del]


section \<open>Symbolic tensors and models\<close>

text \<open>
  Building a Keras model builds a graph.  A tensor is the expression that computes it; the
  constructors of the external framework (\<open>Input\<close>, \<open>ones_like\<close>, \<open>concatenate\<close>,
  \<open>Average\<close>, calling a model) are symbolic nodes.
\<close>

datatype activation = Linear | ParameterTransform string

datatype regularizer = ParameterRegularizer string

datatype constraint = KernelConstraint string

text \<open>The model that \<open>get_single_parameter_model\<close> returns: one \<open>Dense(1, use_bias=False)\<close> layer.\<close>

record single_parameter_model =
  sp_activation :: activation
  sp_kernel_initializer :: "real option"
  sp_kernel_constraint :: "constraint option"
  sp_kernel_regularizer :: "regularizer option"
  sp_name :: string
  sp_trainable :: bool

record layer =
  layer_name :: string
  layer_trainable :: bool

text \<open>A model read from disk: its display name, its layers, and the file it came from.\<close>

record loaded_model =
  lm_name :: string
  lm_layers :: "layer list"
  lm_file :: string

datatype callee = ParameterModel single_parameter_model | LoadedModel loaded_model

datatype tensor =
    InputLayer string "int list" string
  | Const real
  | OnesLikeSlice tensor
  | Apply callee "tensor list"
  | Concatenate "tensor list"
  | Average "tensor list"
  | Add tensor tensor
  | Sub tensor tensor
  | Mul tensor tensor
  | Div tensor tensor

text \<open>
  The arithmetic operators on tensors build nodes; a Python float operand (\<open>1.\<close>,
  \<open>epsilon\<close>) is a constant.
\<close>

instantiation tensor :: "{one,plus,minus,times,inverse}"
begin

definition one_tensor :: tensor where
  "one_tensor = Const 1"

definition plus_tensor :: "tensor \<Rightarrow> tensor \<Rightarrow> tensor" where
  "plus_tensor a b = Add a b"

definition minus_tensor :: "tensor \<Rightarrow> tensor \<Rightarrow> tensor" where
  "minus_tensor a b = Sub a b"

definition times_tensor :: "tensor \<Rightarrow> tensor \<Rightarrow> tensor" where
  "times_tensor a b = Mul a b"

definition divide_tensor :: "tensor \<Rightarrow> tensor \<Rightarrow> tensor" where
  "divide_tensor a b = Div a b"

definition inverse_tensor :: "tensor \<Rightarrow> tensor" where
  "inverse_tensor a = Div (Const 1) a"

instance ..

end

text \<open>\<open>tf.keras.Model(inputs=..., outputs=..., name=...)\<close>\<close>

record keras_model =
  km_inputs :: "tensor list"
  km_outputs :: tensor
  km_name :: string

section \<open>The loader object\<close>

text \<open>
  The attributes that \<open>BaseLoader.__init__\<close> (not part of this file) sets and this file
  reads.
\<close>

record BaseLoader =
  feature_level :: FeatureLevel
  decay_modes :: "DecayMode list"
  variables :: "int list option"
  noise_dimension_per_jet :: "int option"
  use_validation :: bool
  distribute_strategy :: "string option"

text \<open>
  \<open>ModelLoader\<close> adds \<open>_loss\<close> and \<open>_sigmoid_activation\<close>, and the attributes that
  building a semi-weakly model assigns (\<open>None\<close> while unassigned).
\<close>

record ModelLoader = BaseLoader +
  loss_attr :: string
  sigmoid_activation_attr :: bool
  semi_weakly_weight_models :: "(string \<rightharpoonup> single_parameter_model) option"
  llr_model :: "keras_model option"
  fs_model :: "keras_model option"
  llr_2_model :: "keras_model option"
  llr_3_model :: "keras_model option"
  fs_2_model :: "keras_model option"
  fs_3_model :: "keras_model option"

text \<open>
  \<open>ModelLoader.__init__\<close>: the outcome of \<open>super().__init__(...)\<close> is given; then
  \<open>self._loss = loss\<close> and \<open>self._sigmoid_activation = sigmoid_activation\<close>.
\<close>

definition init :: "error + BaseLoader \<Rightarrow> bool \<Rightarrow> string \<Rightarrow> error + ModelLoader" where
  "init super_init sigmoid_activation loss =
     (case super_init of
        Inl e \<Rightarrow> Inl e
      | Inr b \<Rightarrow>
          Inr \<lparr>feature_level = feature_level b, decay_modes = decay_modes b,
               variables = variables b, noise_dimension_per_jet = noise_dimension_per_jet b,
               use_validation = use_validation b, distribute_strategy = distribute_strategy b,
               loss_attr = loss, sigmoid_activation_attr = sigmoid_activation,
               semi_weakly_weight_models = None, llr_model = None, fs_model = None,
               llr_2_model = None, llr_3_model = None, fs_2_model = None, fs_3_model = None\<rparr>)"

text \<open>The property \<open>loss\<close> and its setter.\<close>

definition loss :: "ModelLoader \<Rightarrow> string" where
  "loss self = loss_attr self"

definition loss_setter :: "ModelLoader \<Rightarrow> string \<Rightarrow> error + ModelLoader" where
  "loss_setter self v =
     (let val = lower v
      in if val \<notin> set [''bce'', ''nll''] then Inl (ValueError ''Invalid name for loss function'')
         else Inr (self\<lparr>loss_attr := val\<rparr>))"

text \<open>
  The collaborators outside this file, as functions: the enumeration parsers, the path
  manager, the file system, the model reader, \<open>split_str(kappa, sep=',',
  remove_empty=True)\<close>, Python's \<open>float\<close> on a string, and
  \<open>BaseLoader._get_train_features\<close>.
\<close>

record env =
  ModelType_parse :: "model_type_arg \<Rightarrow> error + ModelType"
  LoggerSaveMode_parse :: "string \<Rightarrow> error + LoggerSaveMode"
  get_train_features :: "ModelType \<Rightarrow> string list"
  path_manager_get_file :: "string \<Rightarrow> string \<Rightarrow> string"
  os_path_exists :: "string \<Rightarrow> bool"
  keras_load_model :: "string \<Rightarrow> error + loaded_model"
  split_str :: "string \<Rightarrow> string list"
  float_of_str :: "string \<Rightarrow> real option"

section \<open>Loss and training configuration\<close>

text \<open>An exception ends the computation: the rest runs only on a result.\<close>

definition bind_err :: "error + 'a \<Rightarrow> ('a \<Rightarrow> error + 'b) \<Rightarrow> error + 'b" where
  "bind_err r f = (case r of Inl err \<Rightarrow> Inl err | Inr x \<Rightarrow> f x)"

text \<open>The test \<open>model_type and ModelType.parse(model_type) == t\<close>.\<close>

definition model_type_is :: "env \<Rightarrow> model_type_arg \<Rightarrow> ModelType \<Rightarrow> error + bool" where
  "model_type_is e model_type t =
     (if truthy model_type
      then bind_err (ModelType_parse e model_type) (\<lambda>parsed. Inr (parsed = t))
      else Inr False)"

datatype loss_fn =
    LossName string
  | ScaledBinaryCrossentropy real real
  | ScaledNLLLoss real real

definition get_loss_fn :: "env \<Rightarrow> ModelLoader \<Rightarrow> model_type_arg \<Rightarrow> error + loss_fn" where
  "get_loss_fn e self model_type =
     (if loss self = ''bce'' then
        (if truthy model_type then
           (case ModelType_parse e model_type of
              Inl err \<Rightarrow> Inl err
            | Inr t \<Rightarrow>
                if t \<in> set [SEMI_WEAKLY, IDEAL_WEAKLY]
                then Inr (ScaledBinaryCrossentropy (- ln 2) 1000)
                else Inr (LossName ''binary_crossentropy''))
         else Inr (LossName ''binary_crossentropy''))
      else if loss self = ''nll'' then
        (if truthy model_type then
           (case ModelType_parse e model_type of
              Inl err \<Rightarrow> Inl err
            | Inr t \<Rightarrow>
                if t \<notin> set [SEMI_WEAKLY]
                then Inl (RuntimeError ''NLL loss is only allowed for semi-weakly models'')
                else Inr (ScaledNLLLoss 0 1))
         else Inr (ScaledNLLLoss 0 1))
      else Inl (ValueError ''Invalid name for loss function''))"

record optimizer_config =
  learning_rate :: real
  clipvalue :: "real option"
  clipnorm :: "real option"

record early_stopping_config =
  monitor :: string
  es_patience :: int
  restore_best_weights :: bool
  always_restore_best_weights :: bool

record lr_scheduler_config =
  initial_lr :: real
  lr_decay_factor :: real
  lr_patience :: int
  min_lr :: real
  lr_verbose :: "bool option"

record model_checkpoint_config =
  save_weights_only :: bool
  save_best_only :: bool
  mc_save_freq :: string

record metrics_logger_config =
  ml_save_freq :: string

record weights_logger_config =
  wl_save_freq :: string
  display_weight :: bool

text \<open>\<open>config['callbacks']\<close>: a callback that the dictionary does not hold is \<open>None\<close>.\<close>

record callbacks_config =
  cb_lr_scheduler :: "lr_scheduler_config option"
  cb_early_stopping :: early_stopping_config
  cb_model_checkpoint :: "model_checkpoint_config option"
  cb_metrics_logger :: "metrics_logger_config option"
  cb_weights_logger :: "weights_logger_config option"

record train_config =
  cfg_loss :: loss_fn
  cfg_metrics :: "string list option"
  cfg_epochs :: int
  cfg_optimizer :: string
  cfg_optimizer_config :: optimizer_config
  cfg_checkpoint_dir :: string
  cfg_callbacks :: callbacks_config

text \<open>\<open>epochs or d\<close>: \<open>None\<close> and \<open>0\<close> are false.\<close>

definition epochs_or :: "int option \<Rightarrow> int \<Rightarrow> int" where
  "epochs_or epochs d = (case epochs of None \<Rightarrow> d | Some n \<Rightarrow> if n = 0 then d else n)"

text \<open>The branch of \<open>get_train_config\<close> for the prior-ratio model.\<close>

definition prior_ratio_train_config :: "string \<Rightarrow> int option \<Rightarrow> train_config" where
  "prior_ratio_train_config checkpoint_dir epochs =
     \<lparr>cfg_loss = LossName ''MSE'',
      cfg_metrics = None,
      cfg_epochs = epochs_or epochs 3000,
      cfg_optimizer = ''Adam'',
      cfg_optimizer_config = \<lparr>learning_rate = 1 / 1000, clipvalue = None, clipnorm = None\<rparr>,
      cfg_checkpoint_dir = checkpoint_dir,
      cfg_callbacks =
        \<lparr>cb_lr_scheduler = None,
         cb_early_stopping =
           \<lparr>monitor = ''val_loss'', es_patience = 200, restore_best_weights = True,
            always_restore_best_weights = True\<rparr>,
         cb_model_checkpoint = None,
         cb_metrics_logger = None,
         cb_weights_logger = None\<rparr>\<rparr>"

text \<open>
  The changes that \<open>get_train_config\<close> makes to the configuration of a semi-weakly
  model.
\<close>

definition semi_weakly_train_config ::
  "ModelLoader \<Rightarrow> bool \<Rightarrow> string \<Rightarrow> train_config \<Rightarrow> train_config" where
  "semi_weakly_train_config self weight_clipping weight_save_freq config =
     (let cbs = (cfg_callbacks config)
            \<lparr>cb_weights_logger :=
               Some \<lparr>wl_save_freq = weight_save_freq, display_weight = True\<rparr>\<rparr>;
          lr = 1 / 100;
          opt = (if weight_clipping
                 then (cfg_optimizer_config config)
                        \<lparr>learning_rate := lr, clipvalue := Some (1 / 10000),
                         clipnorm := Some (1 / 10000)\<rparr>
                 else cfg_optimizer_config config);
          es = (if loss self = ''nll''
                then (cb_early_stopping cbs)\<lparr>es_patience := 30\<rparr>
                else (cb_early_stopping cbs)\<lparr>es_patience := 20\<rparr>);
          cbs = cbs\<lparr>cb_early_stopping := es,
                    cb_lr_scheduler :=
                      Some \<lparr>initial_lr = lr, lr_decay_factor = 1 / 2, lr_patience = 5,
                            min_lr = 1 / 10 ^ 6, lr_verbose = Some True\<rparr>\<rparr>
      in config\<lparr>cfg_optimizer_config := opt, cfg_callbacks := cbs\<rparr>)"

definition get_train_config ::
  "env \<Rightarrow> ModelLoader \<Rightarrow> string \<Rightarrow> model_type_arg \<Rightarrow> bool \<Rightarrow> int option \<Rightarrow>
   string \<Rightarrow> string \<Rightarrow> string \<Rightarrow> error + train_config" where
  "get_train_config e self checkpoint_dir model_type weight_clipping epochs
     model_save_freq metric_save_freq weight_save_freq =
     bind_err (model_type_is e model_type PRIOR_RATIO) (\<lambda>is_prior_ratio.
     if is_prior_ratio then Inr (prior_ratio_train_config checkpoint_dir epochs)
     else
     bind_err
       (if feature_level self = HIGH_LEVEL then Inr (epochs_or epochs 200, 20)
        else if feature_level self = LOW_LEVEL then Inr (epochs_or epochs 20, 5)
        else Inl (RuntimeError ''Unknown feature level''))
       (\<lambda>(epochs, patience).
     let monitor_metric = (if use_validation self then ''val_loss'' else ''loss'');
         metrics = [''accuracy'']
     in
     bind_err (get_loss_fn e self model_type) (\<lambda>loss_fn.
     let config =
           \<lparr>cfg_loss = loss_fn,
            cfg_metrics = Some metrics,
            cfg_epochs = epochs,
            cfg_optimizer = ''Adam'',
            cfg_optimizer_config =
              \<lparr>learning_rate = 1 / 100, clipvalue = None, clipnorm = None\<rparr>,
            cfg_checkpoint_dir = checkpoint_dir,
            cfg_callbacks =
              \<lparr>cb_lr_scheduler =
                 Some \<lparr>initial_lr = 1 / 1000, lr_decay_factor = 1 / 2, lr_patience = 5,
                       min_lr = 1 / 10 ^ 6, lr_verbose = None\<rparr>,
               cb_early_stopping =
                 \<lparr>monitor = monitor_metric, es_patience = patience,
                  restore_best_weights = True, always_restore_best_weights = True\<rparr>,
               cb_model_checkpoint =
                 Some \<lparr>save_weights_only = True, save_best_only = False,
                       mc_save_freq = model_save_freq\<rparr>,
               cb_metrics_logger = Some \<lparr>ml_save_freq = metric_save_freq\<rparr>,
               cb_weights_logger = None\<rparr>\<rparr>
     in
     bind_err (LoggerSaveMode_parse e model_save_freq) (\<lambda>mode.
     let config = (if mode = TRAIN
                   then config\<lparr>cfg_callbacks :=
                                 (cfg_callbacks config)\<lparr>cb_model_checkpoint := None\<rparr>\<rparr>
                   else config)
     in
     bind_err (model_type_is e model_type SEMI_WEAKLY) (\<lambda>is_semi_weakly.
     if is_semi_weakly
     then Inr (semi_weakly_train_config self weight_clipping weight_save_freq config)
     else Inr config)))))"


section \<open>Building the semi-weakly model\<close>

subsection \<open>Input layers\<close>

text \<open>One entry of \<open>feature_metadata\<close>: the keyword arguments of \<open>Input\<close>.\<close>

record feature_meta =
  fm_shape :: "int list"
  fm_dtype :: string

type_synonym feature_metadata = "(string \<times> feature_meta) list"

definition label_map :: "string \<Rightarrow> string" where
  "label_map feature =
     (case map_of [(''part_coords'', ''points''), (''part_features'', ''features''),
                   (''part_masks'', ''masks'')] feature of
        None \<Rightarrow> feature
      | Some key \<Rightarrow> key)"

text \<open>\<open>shape[-1] = f(shape[-1])\<close>; an empty shape raises IndexError.\<close>

definition set_last :: "(int \<Rightarrow> int) \<Rightarrow> int list \<Rightarrow> error + int list" where
  "set_last f shape =
     (if shape = [] then Inl (IndexError ''list index out of range'')
      else Inr (butlast shape @ [f (last shape)]))"

text \<open>\<open>tmp_metadata['jet_features']['shape'][-1] = f(...)\<close>\<close>

definition update_jet_features_shape ::
  "(int \<Rightarrow> int) \<Rightarrow> feature_metadata \<Rightarrow> error + feature_metadata" where
  "update_jet_features_shape f md =
     (case map_of md ''jet_features'' of
        None \<Rightarrow> Inl (KeyError ''jet_features'')
      | Some m \<Rightarrow>
          bind_err (set_last f (fm_shape m)) (\<lambda>shape.
            Inr (map (\<lambda>(feature, m'). if feature = ''jet_features''
                                       then (feature, m'\<lparr>fm_shape := shape\<rparr>)
                                       else (feature, m')) md)))"

text \<open>
  \<open>get_supervised_model_inputs\<close>.  The source updates the entries of a shallow copy in
  place, so the caller's nested dictionaries change too; the model returns the inputs
  only.
\<close>

definition get_supervised_model_inputs ::
  "ModelLoader \<Rightarrow> feature_metadata \<Rightarrow> bool \<Rightarrow> error + (string \<rightharpoonup> tensor)" where
  "get_supervised_model_inputs self feature_metadata downcast =
     (let tmp_metadata =
            (if downcast
             then map (\<lambda>(feature, m). if fm_dtype m = ''float64''
                                        then (feature, m\<lparr>fm_dtype := ''float32''\<rparr>)
                                        else (feature, m)) feature_metadata
             else feature_metadata)
      in
      bind_err (case variables self of
                  None \<Rightarrow> Inr tmp_metadata
                | Some vs \<Rightarrow>
                    update_jet_features_shape (\<lambda>_. int (length vs)) tmp_metadata)
        (\<lambda>tmp_metadata.
      bind_err (case noise_dimension_per_jet self of
                  None \<Rightarrow> Inr tmp_metadata
                | Some n \<Rightarrow>
                    if n = 0 then Inr tmp_metadata
                    else update_jet_features_shape (\<lambda>d. d + n) tmp_metadata)
        (\<lambda>tmp_metadata.
      Inr (foldl (\<lambda>inputs (feature, m).
                    inputs(label_map feature \<mapsto> InputLayer feature (fm_shape m) (fm_dtype m)))
             Map.empty tmp_metadata))))"

subsection \<open>Parameter models\<close>

definition get_single_parameter_model ::
  "activation \<Rightarrow> real option \<Rightarrow> constraint option \<Rightarrow> regularizer option \<Rightarrow> bool \<Rightarrow>
   string \<Rightarrow> single_parameter_model" where
  "get_single_parameter_model activation kernel_initializer kernel_constraint
     kernel_regularizer trainable name =
     \<lparr>sp_activation = activation, sp_kernel_initializer = kernel_initializer,
      sp_kernel_constraint = kernel_constraint, sp_kernel_regularizer = kernel_regularizer,
      sp_name = name, sp_trainable = trainable\<rparr>"

text \<open>
  \<open>get_parameter_transform\<close> and \<open>get_parameter_regularizer\<close> of \<open>paws.utils\<close> are
  looked up by parameter name; what they return is kept symbolic.
\<close>

definition get_semi_weakly_weights ::
  "real \<Rightarrow> real \<Rightarrow> real option \<Rightarrow> real option \<Rightarrow> bool \<Rightarrow> bool \<Rightarrow>
   (string \<rightharpoonup> single_parameter_model)" where
  "get_semi_weakly_weights m1 m2 mu alpha use_sigmoid use_regularizer =
     (let regularizers =
            (\<lambda>parameter. if use_regularizer then Some (ParameterRegularizer parameter)
                          else None);
          weights =
            [''m1'' \<mapsto> get_single_parameter_model (ParameterTransform ''m1'') (Some m1) None
                           (regularizers ''m1'') True ''m1'',
             ''m2'' \<mapsto> get_single_parameter_model (ParameterTransform ''m2'') (Some m2) None
                           (regularizers ''m2'') True ''m2''];
          weights =
            (case mu of
               None \<Rightarrow> weights
             | Some v \<Rightarrow>
                 weights(''mu'' \<mapsto> get_single_parameter_model (ParameterTransform ''mu'')
                                       (Some v) None (regularizers ''mu'') True ''mu''));
          weights =
            (case alpha of
               None \<Rightarrow> weights
             | Some v \<Rightarrow>
                 weights(''alpha'' \<mapsto> get_single_parameter_model (ParameterTransform ''alpha'')
                                          (Some v) None (regularizers ''alpha'') True ''alpha''))
      in weights)"

subsection \<open>Effects: the loader's attributes and the file system\<close>

datatype io_event = PathExists string | LoadModel string

record world =
  loader :: ModelLoader
  io_log :: "io_event list"

type_synonym 'a prog = "world \<Rightarrow> (error + 'a) \<times> world"

definition ret :: "'a \<Rightarrow> 'a prog" where
  "ret x = (\<lambda>w. (Inr x, w))"

definition raise :: "error \<Rightarrow> 'a prog" where
  "raise err = (\<lambda>w. (Inl err, w))"

definition bind :: "'a prog \<Rightarrow> ('a \<Rightarrow> 'b prog) \<Rightarrow> 'b prog" where
  "bind m f = (\<lambda>w. case m w of (Inl err, w') \<Rightarrow> (Inl err, w') | (Inr x, w') \<Rightarrow> f x w')"

definition lift :: "error + 'a \<Rightarrow> 'a prog" where
  "lift r = (\<lambda>w. (r, w))"

definition assign :: "(ModelLoader \<Rightarrow> ModelLoader) \<Rightarrow> unit prog" where
  "assign f = (\<lambda>w. (Inr (), w\<lparr>loader := f (loader w)\<rparr>))"

text \<open>\<open>load_model(model_path)\<close> reads a file.\<close>

definition load_model :: "env \<Rightarrow> string \<Rightarrow> loaded_model prog" where
  "load_model e model_path =
     (\<lambda>w. (keras_load_model e model_path, w\<lparr>io_log := io_log w @ [LoadModel model_path]\<rparr>))"

definition path_exists :: "env \<Rightarrow> string \<Rightarrow> bool prog" where
  "path_exists e path =
     (\<lambda>w. (Inr (os_path_exists e path), w\<lparr>io_log := io_log w @ [PathExists path]\<rparr>))"

definition freeze_all_layers :: "loaded_model \<Rightarrow> loaded_model" where
  "freeze_all_layers model =
     model\<lparr>lm_layers := map (\<lambda>l. l\<lparr>layer_trainable := False\<rparr>) (lm_layers model)\<rparr>"

subsection \<open>Prior models and kappa\<close>

text \<open>The loop of \<open>_get_prior_out\<close>, from index \<open>i\<close>.\<close>

fun load_prior_models :: "env \<Rightarrow> string \<Rightarrow> nat \<Rightarrow> string list \<Rightarrow> loaded_model list prog" where
  "load_prior_models e name i [] = ret []"
| "load_prior_models e name i (model_path # rest) =
     bind (load_model e model_path) (\<lambda>prior_model.
     let prior_model = freeze_all_layers prior_model;
         prior_model = prior_model\<lparr>lm_name := name @ ''_'' @ string_of_nat (i + 1)\<rparr>
     in bind (load_prior_models e name (i + 1) rest) (\<lambda>prior_models.
        ret (prior_model # prior_models)))"

definition u_get_prior_out :: "env \<Rightarrow> tensor list \<Rightarrow> model_paths \<Rightarrow> string \<Rightarrow> tensor prog" where
  "u_get_prior_out e x model_paths name =
     (let model_paths = (case model_paths of Path p \<Rightarrow> [p] | Paths ps \<Rightarrow> ps)
      in bind (load_prior_models e name 0 model_paths) (\<lambda>prior_models.
         ret (Average (map (\<lambda>prior_model. Apply (LoadedModel prior_model) x) prior_models))))"

text \<open>What \<open>get_kappa_out\<close> returns: a Python float or a tensor.\<close>

datatype kappa_out = KappaFloat real | KappaTensor tensor

fun as_tensor :: "kappa_out \<Rightarrow> tensor" where
  "as_tensor (KappaFloat v) = Const v"
| "as_tensor (KappaTensor t) = t"

text \<open>
  The nested function \<open>get_kappa_out(val, supervised_model_path, name)\<close>; \<open>mass_params\<close>
  is the variable of the enclosing function.
\<close>

definition get_kappa_out ::
  "env \<Rightarrow> tensor \<Rightarrow> kappa_spec \<Rightarrow> model_paths \<Rightarrow> string option \<Rightarrow> kappa_out prog" where
  "get_kappa_out e mass_params val supervised_model_path name =
     (case val of
        KappaNumber v \<Rightarrow> ret (KappaFloat v)
      | KappaString s \<Rightarrow>
          (let val = lower s
           in if val \<in> set [''inferred'', ''sampled''] then
                (let basename = path_manager_get_file e ''model_prior_ratio'' val
                 in case supervised_model_path of
                      Paths ps \<Rightarrow> raise (TypeError ''expected str, bytes or os.PathLike object'')
                    | Path p \<Rightarrow>
                        (let dirname = os_path_dirname p;
                             model_path = os_path_join dirname basename
                         in bind (path_exists e model_path) (\<lambda>found.
                            if \<not> found
                            then raise (FileNotFoundError
                                          (''prior ratio model path does not exist: '' @ model_path))
                            else bind (load_model e model_path) (\<lambda>prior_model.
                                 let prior_model =
                                       (case name of
                                          None \<Rightarrow> prior_model
                                        | Some n \<Rightarrow> prior_model\<lparr>lm_name := n\<rparr>);
                                     prior_model = freeze_all_layers prior_model
                                 in ret (KappaTensor
                                           (Apply (LoadedModel prior_model) [mass_params]))))))
              else (case float_of_str e val of
                      None \<Rightarrow> raise (ValueError ''could not convert string to float'')
                    | Some v \<Rightarrow> ret (KappaFloat v))))"


subsection \<open>\<open>_get_semi_weakly_model\<close>\<close>

text \<open>
  \<open>weights[name](ones_like(inputs['jet_features'])[:, 0, 0])\<close>; \<open>ones_like\<close> is
  \<open>keras.ops.ones_like\<close> or \<open>tf.ones_like\<close> by the version of Keras, the same node here.
\<close>

definition weight_out ::
  "(string \<rightharpoonup> single_parameter_model) \<Rightarrow> (string \<rightharpoonup> tensor) \<Rightarrow> string \<Rightarrow> error + tensor" where
  "weight_out weights inputs name =
     (case weights name of
        None \<Rightarrow> Inl (KeyError name)
      | Some weight \<Rightarrow>
          (case inputs ''jet_features'' of
             None \<Rightarrow> Inl (KeyError ''jet_features'')
           | Some x \<Rightarrow> Inr (Apply (ParameterModel weight) [OnesLikeSlice x])))"

text \<open>\<open>[inputs[feature] for feature in train_features]\<close>\<close>

fun getitems :: "(string \<rightharpoonup> tensor) \<Rightarrow> string list \<Rightarrow> error + tensor list" where
  "getitems inputs [] = Inr []"
| "getitems inputs (feature # rest) =
     (case inputs feature of
        None \<Rightarrow> Inl (KeyError feature)
      | Some x \<Rightarrow> bind_err (getitems inputs rest) (\<lambda>xs. Inr (x # xs)))"

text \<open>
  Reading a local variable of the function: one that no assignment has bound yet raises
  UnboundLocalError.
\<close>

definition read_local :: "string \<Rightarrow> 'a option \<Rightarrow> 'a prog" where
  "read_local name binding =
     (case binding of
        None \<Rightarrow> raise (UnboundLocalError name)
      | Some v \<Rightarrow> ret v)"

text \<open>The branch \<open>if not multi_signal\<close> (source lines 616 to 630).\<close>

definition single_signal_branch ::
  "env \<Rightarrow> ModelLoader \<Rightarrow> tensor list \<Rightarrow> tensor list \<Rightarrow> tensor \<Rightarrow> tensor \<Rightarrow> model_paths \<Rightarrow>
   kappa_spec \<Rightarrow> real \<Rightarrow> bool \<Rightarrow> tensor prog" where
  "single_signal_branch e self train_inputs fs_inputs mass_params mu_out fs_model_path
     kappa epsilon bug_fix =
     bind (u_get_prior_out e fs_inputs fs_model_path ''prior'') (\<lambda>fs_out.
     bind (get_kappa_out e mass_params kappa fs_model_path None) (\<lambda>kappa_out.
     let ws_out =
           (if loss self \<noteq> ''nll''
            then u_get_one_signal_semi_weakly_layer fs_out mu_out (as_tensor kappa_out)
                   (Const epsilon) bug_fix
            else u_get_one_signal_likelihood_layer fs_out mu_out (as_tensor kappa_out)
                   (Const epsilon));
         LLR = as_tensor kappa_out * fs_out / (1 - fs_out + Const (1 / 10 ^ 10))
     in
     bind (assign (\<lambda>s. s\<lparr>llr_model :=
             Some \<lparr>km_inputs = train_inputs, km_outputs = LLR, km_name = ''LLR''\<rparr>\<rparr>)) (\<lambda>_.
     bind (assign (\<lambda>s. s\<lparr>fs_model :=
             Some \<lparr>km_inputs = train_inputs, km_outputs = fs_out,
                   km_name = ''Supervised''\<rparr>\<rparr>)) (\<lambda>_.
     ret ws_out))))"

text \<open>
  The \<open>else\<close> branch (source lines 632 to 668).  \<open>kappa_out\<close> is the binding of the
  function's local variable of that name when the branch is entered.
\<close>

definition multi_signal_branch ::
  "env \<Rightarrow> ModelLoader \<Rightarrow> tensor list \<Rightarrow> tensor list \<Rightarrow> tensor \<Rightarrow> tensor \<Rightarrow> tensor \<Rightarrow>
   model_paths \<Rightarrow> model_paths \<Rightarrow> kappa_spec \<Rightarrow> real \<Rightarrow> bool \<Rightarrow> kappa_out option \<Rightarrow> tensor prog" where
  "multi_signal_branch e self train_inputs fs_inputs mass_params mu_out alpha_out
     fs_model_path fs_model_path_2 kappa epsilon bug_fix kappa_out =
     bind (lift (case kappa of
                   KappaString s \<Rightarrow>
                     (let tokens = split_str e s
                      in if length tokens = 1
                         then Inr (KappaString (tokens ! 0), KappaString (tokens ! 0))
                         else if length tokens = 2
                         then Inr (KappaString (tokens ! 0), KappaString (tokens ! 1))
                         else Inl (ValueError ''failed to interpret kappa value''))
                 | KappaNumber v \<Rightarrow> Inr (kappa, kappa))) (\<lambda>(kappa_2, kappa_3).
     bind (get_kappa_out e mass_params kappa_2 fs_model_path (Some ''PriorRatioNet_2''))
       (\<lambda>kappa_2_out.
     bind (get_kappa_out e mass_params kappa_3 fs_model_path_2 (Some ''PriorRatioNet_3''))
       (\<lambda>kappa_3_out.
     bind (u_get_prior_out e fs_inputs fs_model_path ''prior_2prong'') (\<lambda>fs_2_out.
     bind (u_get_prior_out e fs_inputs fs_model_path_2 ''prior_3prong'') (\<lambda>fs_3_out.
     let ws_out =
           (if loss self \<noteq> ''nll''
            then u_get_two_signal_semi_weakly_layer fs_2_out fs_3_out mu_out alpha_out
                   (as_tensor kappa_2_out) (as_tensor kappa_3_out) (Const epsilon) bug_fix
            else u_get_two_signal_likelihood_layer fs_2_out fs_3_out mu_out alpha_out
                   (as_tensor kappa_2_out) (as_tensor kappa_3_out) (Const epsilon))
     in
     bind (read_local ''kappa_out'' kappa_out) (\<lambda>kappa_out_2.
     let LLR_2 = as_tensor kappa_out_2 * fs_2_out / (1 - fs_2_out + Const (1 / 10 ^ 10))
     in
     bind (read_local ''kappa_out'' kappa_out) (\<lambda>kappa_out_3.
     let LLR_3 = as_tensor kappa_out_3 * fs_3_out / (1 - fs_3_out + Const (1 / 10 ^ 10))
     in
     bind (assign (\<lambda>s. s\<lparr>llr_2_model :=
             Some \<lparr>km_inputs = train_inputs, km_outputs = LLR_2,
                   km_name = ''TwoProngLLR''\<rparr>\<rparr>)) (\<lambda>_.
     bind (assign (\<lambda>s. s\<lparr>llr_3_model :=
             Some \<lparr>km_inputs = train_inputs, km_outputs = LLR_3,
                   km_name = ''ThreeProngLLR''\<rparr>\<rparr>)) (\<lambda>_.
     bind (assign (\<lambda>s. s\<lparr>fs_2_model :=
             Some \<lparr>km_inputs = train_inputs, km_outputs = fs_2_out,
                   km_name = ''TwoProngSupervised''\<rparr>\<rparr>)) (\<lambda>_.
     bind (assign (\<lambda>s. s\<lparr>fs_3_model :=
             Some \<lparr>km_inputs = train_inputs, km_outputs = fs_3_out,
                   km_name = ''ThreeProngSupervised''\<rparr>\<rparr>)) (\<lambda>_.
     ret ws_out)))))))))))"

text \<open>
  \<open>_get_semi_weakly_model\<close>.  The only assignment to the local variable \<open>kappa_out\<close> is
  in the single-signal branch, so the other branch is entered with it unbound.
\<close>

definition u_get_semi_weakly_model ::
  "env \<Rightarrow> feature_metadata \<Rightarrow> model_paths \<Rightarrow> real \<Rightarrow> real \<Rightarrow> real \<Rightarrow> real \<Rightarrow> kappa_spec \<Rightarrow>
   model_paths option \<Rightarrow> real \<Rightarrow> bool \<Rightarrow> bool \<Rightarrow> bool \<Rightarrow> keras_model prog" where
  "u_get_semi_weakly_model e feature_metadata fs_model_path m1 m2 mu alpha kappa
     fs_model_path_2 epsilon bug_fix use_sigmoid use_regularizer =
     (\<lambda>w.
     (let self = loader w in
     bind (lift (get_supervised_model_inputs self feature_metadata True)) (\<lambda>inputs.
     let weights = get_semi_weakly_weights m1 m2 (Some mu) (Some alpha) use_sigmoid
                     use_regularizer
     in
     bind (assign (\<lambda>s. s\<lparr>semi_weakly_weight_models := Some weights\<rparr>)) (\<lambda>_.
     bind (lift (weight_out weights inputs ''m1'')) (\<lambda>m1_out.
     bind (lift (weight_out weights inputs ''m2'')) (\<lambda>m2_out.
     bind (lift (weight_out weights inputs ''mu'')) (\<lambda>mu_out.
     bind (lift (weight_out weights inputs ''alpha'')) (\<lambda>alpha_out.
     let mass_params = Concatenate [m1_out, m2_out];
         train_features = get_train_features e SEMI_WEAKLY
     in
     bind (lift (getitems inputs train_features)) (\<lambda>train_inputs.
     bind (lift (getitems inputs train_features)) (\<lambda>fs_inputs.
     let fs_inputs = fs_inputs @ [mass_params];
         multi_signal = (length (decay_modes self) > 1)
     in
     bind (case (multi_signal, fs_model_path_2) of
             (True, None) \<Rightarrow>
               raise (ValueError
                 ''fs_model_path_2 cannot be None when multiple signals are considered'')
           | (False, _) \<Rightarrow>
               single_signal_branch e self train_inputs fs_inputs mass_params mu_out
                 fs_model_path kappa epsilon bug_fix
           | (True, Some path_2) \<Rightarrow>
               multi_signal_branch e self train_inputs fs_inputs mass_params mu_out alpha_out
                 fs_model_path path_2 kappa epsilon bug_fix None) (\<lambda>ws_out.
     ret \<lparr>km_inputs = train_inputs, km_outputs = ws_out, km_name = ''SemiWeakly''\<rparr>)))))))))) w)"

text \<open>\<open>_distributed_wrapper\<close>: the strategy's scope is a context of the framework.\<close>

definition u_distributed_wrapper :: "ModelLoader \<Rightarrow> 'a prog \<Rightarrow> 'a prog" where
  "u_distributed_wrapper self fn =
     (if distribute_strategy self \<noteq> None then fn else fn)"

definition get_semi_weakly_model ::
  "env \<Rightarrow> feature_metadata \<Rightarrow> model_paths \<Rightarrow> real \<Rightarrow> real \<Rightarrow> real \<Rightarrow> real \<Rightarrow> kappa_spec \<Rightarrow>
   model_paths option \<Rightarrow> real \<Rightarrow> bool \<Rightarrow> bool \<Rightarrow> bool \<Rightarrow> keras_model prog" where
  "get_semi_weakly_model e feature_metadata fs_model_path m1 m2 mu alpha kappa
     fs_model_path_2 epsilon bug_fix use_sigmoid use_regularizer =
     (\<lambda>w. u_distributed_wrapper (loader w)
            (u_get_semi_weakly_model e feature_metadata fs_model_path m1 m2 mu alpha kappa
               fs_model_path_2 epsilon bug_fix use_sigmoid use_regularizer) w)"


section \<open>Concrete inputs\<close>

text \<open>
  A loader, collaborators and feature metadata on which the functions above are
  evaluated: two decay modes, the high-level features, three model files on disk.
\<close>

definition example_base :: BaseLoader where
  "example_base =
     \<lparr>feature_level = HIGH_LEVEL, decay_modes = [QQ, QQQ], variables = None,
      noise_dimension_per_jet = None, use_validation = True, distribute_strategy = None\<rparr>"

definition example_loader :: "string \<Rightarrow> ModelLoader" where
  "example_loader loss_name =
     \<lparr>feature_level = HIGH_LEVEL, decay_modes = [QQ, QQQ], variables = None,
      noise_dimension_per_jet = None, use_validation = True, distribute_strategy = None,
      loss_attr = loss_name, sigmoid_activation_attr = False,
      semi_weakly_weight_models = None, llr_model = None, fs_model = None,
      llr_2_model = None, llr_3_model = None, fs_2_model = None, fs_3_model = None\<rparr>"

definition example_files :: "string list" where
  "example_files = [''/m/qq/model.keras'', ''/m/qqq/model.keras'', ''/m/qq/prior_inferred.keras'']"

definition example_env :: env where
  "example_env =
     \<lparr>ModelType_parse =
        (\<lambda>a. case a of
               ModelTypeMember t \<Rightarrow> Inr t
             | ModelTypeName s \<Rightarrow>
                 (if s = ''semi_weakly'' then Inr SEMI_WEAKLY
                  else if s = ''ideal_weakly'' then Inr IDEAL_WEAKLY
                  else if s = ''prior_ratio'' then Inr PRIOR_RATIO
                  else if s = ''param_supervised'' then Inr (OTHER_MODEL_TYPE s)
                  else Inl (ValueError ''invalid model type''))
             | NoModelType \<Rightarrow> Inl (ValueError ''invalid model type'')),
      LoggerSaveMode_parse =
        (\<lambda>s. if s = ''train'' then Inr TRAIN else Inr (OTHER_SAVE_MODE s)),
      get_train_features = (\<lambda>t. [''jet_features'']),
      path_manager_get_file = (\<lambda>kind method. ''prior_'' @ method @ ''.keras''),
      os_path_exists = (\<lambda>path. path \<in> set example_files),
      keras_load_model =
        (\<lambda>path. if path \<in> set example_files
                then Inr \<lparr>lm_name = ''model'',
                          lm_layers = [\<lparr>layer_name = ''dense'', layer_trainable = True\<rparr>],
                          lm_file = path\<rparr>
                else Inl (FileNotFoundError path)),
      split_str = (\<lambda>s. [s]),
      float_of_str = (\<lambda>s. if s = ''1.0'' then Some 1 else None)\<rparr>"

definition example_metadata :: feature_metadata where
  "example_metadata =
     [(''jet_features'', \<lparr>fm_shape = [2, 7], fm_dtype = ''float64''\<rparr>),
      (''param_masses'', \<lparr>fm_shape = [2], fm_dtype = ''float64''\<rparr>)]"

definition example_world :: "string \<Rightarrow> world" where
  "example_world loss_name = \<lparr>loader = example_loader loss_name, io_log = []\<rparr>"

text \<open>The same with the two-prong decay mode only.\<close>

definition single_signal_world :: "string \<Rightarrow> world" where
  "single_signal_world loss_name =
     \<lparr>loader = (example_loader loss_name)\<lparr>decay_modes := [QQ]\<rparr>, io_log = []\<rparr>"


section \<open>The weight transforms\<close>






lemma two_signal_zero_divisor_values:
  "u_get_two_signal_semi_weakly_layer (Finite 1) (Finite (1 / 2)) (Finite (1 / 2)) (Finite 1)
     (Finite 1) (Finite 1) (Finite 0) True = NonFinite
   \<and> u_get_one_signal_semi_weakly_layer (Finite (1 / 2)) (Finite (1 / 2)) (Finite 1) (Finite 0)
       True = Finite (2 / 3)"
  by (simp add: u_get_one_signal_semi_weakly_layer_def u_get_two_signal_semi_weakly_layer_def
      Let_def one_fval_def)




section \<open>The loss and the training configuration\<close>

text \<open>
  C7 fails on the code.  \<open>__init__\<close> stores the loss name in \<open>_loss\<close> without going
  through the validating setter: with the name \<open>mse\<close> construction succeeds, and the
  ValueError comes only from \<open>get_loss_fn\<close>.  The setter rejects the same name.
\<close>

theorem init_keeps_invalid_loss:
  "init (Inr example_base) False ''mse'' = Inr (example_loader ''mse'')
   \<and> loss (example_loader ''mse'') = ''mse''
   \<and> get_loss_fn example_env (example_loader ''mse'') NoModelType
     = Inl (ValueError ''Invalid name for loss function'')
   \<and> loss_setter (example_loader ''bce'') ''mse''
     = Inl (ValueError ''Invalid name for loss function'')"
  by (simp add: init_def example_base_def example_loader_def loss_def get_loss_fn_def
      loss_setter_def lower_def lower_char_def)

lemma init_never_checks_loss:
  "\<exists>self. init (Inr b) sigmoid_activation loss_name = Inr self \<and> loss self = loss_name"
  by (simp add: init_def loss_def)

text \<open>
  C10.  With the loss \<open>nll\<close> and a model type that is \<open>None\<close> (or the empty string),
  \<open>get_loss_fn\<close> returns the NLL loss object: the model type is not parsed or checked.
\<close>

theorem nll_without_model_type:
  "loss self = ''nll'' \<Longrightarrow> \<not> truthy model_type \<Longrightarrow>
   get_loss_fn e self model_type = Inr (ScaledNLLLoss 0 1)"
  by (simp add: get_loss_fn_def)

theorem nll_without_model_type_witness:
  "get_loss_fn example_env (example_loader ''nll'') NoModelType = Inr (ScaledNLLLoss 0 1)
   \<and> get_loss_fn example_env (example_loader ''nll'') (ModelTypeName []) = Inr (ScaledNLLLoss 0 1)"
  using nll_without_model_type [of "example_loader ''nll''" NoModelType example_env]
        nll_without_model_type [of "example_loader ''nll''" "ModelTypeName []" example_env]
  by (simp add: loss_def example_loader_def)

text \<open>
  C8, as stated, fails for the prior-ratio model: its configuration is a fixed one whose
  monitor is \<open>val_loss\<close> also when no validation set is configured.
\<close>

theorem prior_ratio_monitor_counterexample:
  "use_validation ((example_loader ''bce'')\<lparr>use_validation := False\<rparr>) = False
   \<and> map_sum id (\<lambda>config. monitor (cb_early_stopping (cfg_callbacks config)))
       (get_train_config example_env ((example_loader ''bce'')\<lparr>use_validation := False\<rparr>)
          ''ckpt'' (ModelTypeMember PRIOR_RATIO) True None ''epoch'' ''epoch'' ''epoch'')
     = Inr ''val_loss''"
  by (simp add: get_train_config_def model_type_is_def bind_err_def example_env_def
      example_loader_def prior_ratio_train_config_def)

text \<open>
  C8, amended.  Every configuration that \<open>get_train_config\<close> returns for a model type
  other than the prior-ratio model (or for no model type) monitors \<open>val_loss\<close> when a
  validation set is configured and \<open>loss\<close> otherwise; the one it returns for the
  prior-ratio model always monitors \<open>val_loss\<close>.
\<close>

theorem early_stopping_monitor:
  assumes "get_train_config e self checkpoint_dir model_type weight_clipping epochs
             model_save_freq metric_save_freq weight_save_freq = Inr config"
  shows "monitor (cb_early_stopping (cfg_callbacks config)) =
           (if model_type_is e model_type PRIOR_RATIO = Inr True then ''val_loss''
            else if use_validation self then ''val_loss'' else ''loss'')"
  using assms
  by (auto simp add: get_train_config_def bind_err_def prior_ratio_train_config_def
      semi_weakly_train_config_def Let_def split: sum.splits if_splits prod.splits)


theorem early_stopping_monitor_witness:
  "map_sum id (\<lambda>config. monitor (cb_early_stopping (cfg_callbacks config)))
     (get_train_config example_env ((example_loader ''bce'')\<lparr>use_validation := False\<rparr>)
        ''ckpt'' (ModelTypeName ''semi_weakly'') True None ''epoch'' ''epoch'' ''epoch'')
   = Inr ''loss''
   \<and> map_sum id (\<lambda>config. monitor (cb_early_stopping (cfg_callbacks config)))
     (get_train_config example_env (example_loader ''bce'')
        ''ckpt'' NoModelType True None ''epoch'' ''epoch'' ''epoch'')
   = Inr ''val_loss''"
proof -
  let ?self = "(example_loader ''bce'')\<lparr>use_validation := False\<rparr>"
  obtain c1 where c1:
    "get_train_config example_env ?self ''ckpt'' (ModelTypeName ''semi_weakly'') True None
       ''epoch'' ''epoch'' ''epoch'' = Inr c1"
    by (simp add: get_train_config_def model_type_is_def bind_err_def example_env_def
        example_loader_def get_loss_fn_def loss_def Let_def)
  obtain c2 where c2:
    "get_train_config example_env (example_loader ''bce'') ''ckpt'' NoModelType True None
       ''epoch'' ''epoch'' ''epoch'' = Inr c2"
    by (simp add: get_train_config_def model_type_is_def bind_err_def example_env_def
        example_loader_def get_loss_fn_def loss_def Let_def)
  have p1: "model_type_is example_env (ModelTypeName ''semi_weakly'') PRIOR_RATIO = Inr False"
    by (simp add: model_type_is_def example_env_def bind_err_def)
  have p2: "model_type_is example_env NoModelType PRIOR_RATIO = Inr False"
    by (simp add: model_type_is_def)
  have u1: "\<not> use_validation ?self"
    by simp
  have u2: "use_validation (example_loader ''bce'')"
    by (simp add: example_loader_def)
  show ?thesis
    using early_stopping_monitor [OF c1] early_stopping_monitor [OF c2]
    by (simp add: c1 c2 p1 p2 u1 u2)
qed

section \<open>Kappa resolution\<close>

lemma lower_inferred_sampled:
  "lower ''inferred'' = ''inferred''" "lower ''sampled'' = ''sampled''"
  by (simp_all add: lower_def lower_char_def)








section \<open>Building the model: guards, effects and results\<close>

subsection \<open>The concrete inputs\<close>

lemma example_loader_fields:
  "decay_modes (example_loader l) = [QQ, QQQ]"
  "variables (example_loader l) = None"
  "noise_dimension_per_jet (example_loader l) = None"
  "loss_attr (example_loader l) = l"
  by (simp_all add: example_loader_def)

lemma example_inputs:
  "variables self = None \<Longrightarrow> noise_dimension_per_jet self = None \<Longrightarrow>
   get_supervised_model_inputs self example_metadata True
   = Inr [''jet_features'' \<mapsto> InputLayer ''jet_features'' [2, 7] ''float32'',
          ''param_masses'' \<mapsto> InputLayer ''param_masses'' [2] ''float32'']"
  by (simp add: get_supervised_model_inputs_def example_metadata_def bind_err_def label_map_def)

text \<open>
  With one decay mode the build succeeds on the concrete inputs: it returns the model
  \<open>SemiWeakly\<close>, assigns the models \<open>LLR\<close> and \<open>Supervised\<close>, and has read the
  supervised model and the prior-ratio model.
\<close>

lemma single_signal_build_example:
  "case u_get_semi_weakly_model example_env example_metadata (Path ''/m/qq/model.keras'') 0 0
          (1 / 100) (1 / 2) (KappaString ''inferred'') None (1 / 10 ^ 10) True False True
          (single_signal_world ''bce'') of
     (r, w') \<Rightarrow>
       map_sum id km_name r = Inr ''SemiWeakly''
       \<and> map_option km_name (llr_model (loader w')) = Some ''LLR''
       \<and> map_option km_name (fs_model (loader w')) = Some ''Supervised''
       \<and> io_log w' = [LoadModel ''/m/qq/model.keras'',
                        PathExists ''/m/qq/prior_inferred.keras'',
                        LoadModel ''/m/qq/prior_inferred.keras'']"
  by (simp add: u_get_semi_weakly_model_def single_signal_world_def example_inputs
      example_loader_fields bind_def lift_def assign_def ret_def raise_def Let_def weight_out_def
      get_semi_weakly_weights_def example_env_def bind_err_def single_signal_branch_def
      get_kappa_out_def u_get_prior_out_def load_model_def example_files_def
      lower_inferred_sampled path_exists_def os_path_dirname_def os_path_join_def
      rstrip_slash_def loss_def)

text \<open>The public method runs the private one, inside the strategy's scope if there is one.\<close>

lemma get_semi_weakly_model_runs_private:
  "get_semi_weakly_model e md p m1 m2 mu alpha kappa p2 eps bf us ur
   = u_get_semi_weakly_model e md p m1 m2 mu alpha kappa p2 eps bf us ur"
  by (simp add: get_semi_weakly_model_def u_distributed_wrapper_def)

subsection \<open>The guard on the second model path\<close>





subsection \<open>The two-signal branch\<close>

lemma load_prior_models_loader:
  "load_prior_models e name i ps w = (r, w') \<Longrightarrow> loader w' = loader w"
proof (induction ps arbitrary: i w r w')
  case Nil
  then show ?case by (simp add: ret_def)
next
  case (Cons path ps)
  then show ?case
    by (auto simp add: bind_def ret_def Let_def load_model_def split: sum.splits prod.splits)
qed

lemma u_get_prior_out_loader:
  "u_get_prior_out e x ps name w = (r, w') \<Longrightarrow> loader w' = loader w"
  by (auto simp add: u_get_prior_out_def bind_def ret_def Let_def
      split: sum.splits prod.splits dest: load_prior_models_loader)

lemma get_kappa_out_loader:
  "get_kappa_out e mass_params val path name w = (r, w') \<Longrightarrow> loader w' = loader w"
  by (auto simp add: get_kappa_out_def bind_def ret_def raise_def Let_def path_exists_def
      load_model_def
      split: sum.splits prod.splits kappa_spec.splits model_paths.splits if_splits
        option.splits)

text \<open>Entered with \<open>kappa_out\<close> unbound, the branch ends in an exception and assigns nothing.\<close>

lemma multi_signal_branch_unbound:
  "multi_signal_branch e self train_inputs fs_inputs mass_params mu_out alpha_out p p2 kappa
     eps bf None w = (r, w')
   \<Longrightarrow> isl r \<and> loader w' = loader w"
  unfolding multi_signal_branch_def
  by (auto simp add: bind_def lift_def read_local_def raise_def Let_def
      split: sum.splits prod.splits dest!: u_get_prior_out_loader get_kappa_out_loader)

lemma two_signal_build_result:
  assumes "1 < length (decay_modes (loader w))"
    and "u_get_semi_weakly_model e md p m1 m2 mu alpha kappa (Some p2) eps bf us ur w = (r, w')"
  shows "isl r \<and> llr_2_model (loader w') = llr_2_model (loader w)
         \<and> llr_3_model (loader w') = llr_3_model (loader w)
         \<and> fs_2_model (loader w') = fs_2_model (loader w)
         \<and> fs_3_model (loader w') = fs_3_model (loader w)"
  using assms
  unfolding u_get_semi_weakly_model_def
  by (auto simp add: bind_def lift_def assign_def ret_def Let_def
      split: sum.splits prod.splits dest!: multi_signal_branch_unbound)

text \<open>
  On the concrete inputs, with both model paths given and a numeric kappa, the build
  reads both supervised models and then raises UnboundLocalError for \<open>kappa_out\<close>.
\<close>

lemma two_signal_build_example:
  "fst (u_get_semi_weakly_model example_env example_metadata (Path ''/m/qq/model.keras'') 0 0
          (1 / 100) (1 / 2) (KappaNumber 1) (Some (Path ''/m/qqq/model.keras'')) (1 / 10 ^ 10)
          True False True (example_world ''bce''))
   = Inl (UnboundLocalError ''kappa_out'')
   \<and> io_log (snd (u_get_semi_weakly_model example_env example_metadata
                     (Path ''/m/qq/model.keras'') 0 0 (1 / 100) (1 / 2) (KappaNumber 1)
                     (Some (Path ''/m/qqq/model.keras'')) (1 / 10 ^ 10) True False True
                     (example_world ''bce'')))
     = [LoadModel ''/m/qq/model.keras'', LoadModel ''/m/qqq/model.keras'']"
  by (simp add: u_get_semi_weakly_model_def example_world_def example_inputs
      example_loader_fields bind_def lift_def assign_def ret_def raise_def Let_def weight_out_def
      get_semi_weakly_weights_def example_env_def bind_err_def multi_signal_branch_def
      get_kappa_out_def u_get_prior_out_def load_model_def example_files_def read_local_def
      loss_def)

text \<open>
  C2 fails on the code.  With more than one decay mode and a second supervised-model
  path, \<open>_get_semi_weakly_model\<close> never returns a model, whatever the other arguments
  and the files are: the branch reads the local variable \<open>kappa_out\<close>, which only the
  single-signal branch assigns.  None of the four per-mode artifacts is assigned.
\<close>

theorem two_signal_build_never_succeeds:
  assumes "1 < length (decay_modes (loader w))"
  shows "isl (fst (u_get_semi_weakly_model e feature_metadata fs_model_path m1 m2 mu alpha kappa
                     (Some fs_model_path_2) epsilon bug_fix use_sigmoid use_regularizer w))
         \<and> (let self' = loader (snd (u_get_semi_weakly_model e feature_metadata fs_model_path m1
                                        m2 mu alpha kappa (Some fs_model_path_2) epsilon bug_fix
                                        use_sigmoid use_regularizer w))
            in llr_2_model self' = llr_2_model (loader w)
               \<and> llr_3_model self' = llr_3_model (loader w)
               \<and> fs_2_model self' = fs_2_model (loader w)
               \<and> fs_3_model self' = fs_3_model (loader w))"
  using two_signal_build_result [OF assms, of e feature_metadata fs_model_path m1 m2 mu alpha
          kappa fs_model_path_2 epsilon bug_fix use_sigmoid use_regularizer]
  by (simp add: Let_def prod_eq_iff)

theorem two_signal_build_never_succeeds_witness:
  "fst (u_get_semi_weakly_model example_env example_metadata (Path ''/m/qq/model.keras'') 0 0
          (1 / 100) (1 / 2) (KappaNumber 1) (Some (Path ''/m/qqq/model.keras'')) (1 / 10 ^ 10)
          True False True (example_world ''bce''))
   = Inl (UnboundLocalError ''kappa_out'')
   \<and> llr_2_model (loader (snd (u_get_semi_weakly_model example_env example_metadata
        (Path ''/m/qq/model.keras'') 0 0 (1 / 100) (1 / 2) (KappaNumber 1)
        (Some (Path ''/m/qqq/model.keras'')) (1 / 10 ^ 10) True False True
        (example_world ''bce'')))) = None
   \<and> fs_3_model (loader (snd (u_get_semi_weakly_model example_env example_metadata
        (Path ''/m/qq/model.keras'') 0 0 (1 / 100) (1 / 2) (KappaNumber 1)
        (Some (Path ''/m/qqq/model.keras'')) (1 / 10 ^ 10) True False True
        (example_world ''bce'')))) = None"
proof -
  have modes: "1 < length (decay_modes (loader (example_world ''bce'')))"
    by (simp add: example_world_def example_loader_fields)
  have unassigned:
    "llr_2_model (loader (example_world ''bce'')) = None"
    "fs_3_model (loader (example_world ''bce'')) = None"
    by (simp_all add: example_world_def example_loader_def)
  show ?thesis
    using two_signal_build_never_succeeds [OF modes, of example_env example_metadata
            "Path ''/m/qq/model.keras''" 0 0 "1 / 100" "1 / 2" "KappaNumber 1"
            "Path ''/m/qqq/model.keras''" "1 / 10 ^ 10" True False True]
          two_signal_build_example unassigned
    by (simp add: Let_def)
qed

subsection \<open>The flag \<open>use_sigmoid\<close>\<close>

text \<open>
  C9.  \<open>get_semi_weakly_weights\<close>, \<open>_get_semi_weakly_model\<close> and
  \<open>get_semi_weakly_model\<close> give the same result, the same loader attributes and the same
  file accesses for \<open>use_sigmoid = True\<close> and \<open>use_sigmoid = False\<close>, all other
  arguments being equal.
\<close>

theorem use_sigmoid_not_read:
  "get_semi_weakly_weights m1 m2 mu_opt alpha_opt True use_regularizer
     = get_semi_weakly_weights m1 m2 mu_opt alpha_opt False use_regularizer
   \<and> u_get_semi_weakly_model e feature_metadata fs_model_path m1 m2 mu alpha kappa
       fs_model_path_2 epsilon bug_fix True use_regularizer
     = u_get_semi_weakly_model e feature_metadata fs_model_path m1 m2 mu alpha kappa
         fs_model_path_2 epsilon bug_fix False use_regularizer
   \<and> get_semi_weakly_model e feature_metadata fs_model_path m1 m2 mu alpha kappa
       fs_model_path_2 epsilon bug_fix True use_regularizer
     = get_semi_weakly_model e feature_metadata fs_model_path m1 m2 mu alpha kappa
         fs_model_path_2 epsilon bug_fix False use_regularizer"
  by (simp add: get_semi_weakly_weights_def u_get_semi_weakly_model_def
      get_semi_weakly_model_def)

theorem use_sigmoid_not_read_witness:
  "get_semi_weakly_weights 0 0 (Some (1 / 100)) (Some (1 / 2)) True True
     = get_semi_weakly_weights 0 0 (Some (1 / 100)) (Some (1 / 2)) False True
   \<and> get_semi_weakly_model example_env example_metadata (Path ''/m/qq/model.keras'') 0 0
       (1 / 100) (1 / 2) (KappaNumber 1) None (1 / 100000) True True True
       (single_signal_world ''bce'')
     = get_semi_weakly_model example_env example_metadata (Path ''/m/qq/model.keras'') 0 0
         (1 / 100) (1 / 2) (KappaNumber 1) None (1 / 100000) True False True
         (single_signal_world ''bce'')"
  using use_sigmoid_not_read [of 0 0 "Some (1 / 100)" "Some (1 / 2)" True example_env
          example_metadata "Path ''/m/qq/model.keras''" "1 / 100" "1 / 2" "KappaNumber 1" None
          "1 / 100000" True]
  by simp

end
